theory Spec2Isabelle
  imports Main "HOL-Library.Word"
begin

section \<open>Python values and exceptions\<close>

text \<open>
  A raw profile record is whatever \<^verbatim>\<open>json.loads\<close> returns: \<^verbatim>\<open>None\<close>, a bool, an int,
  a float, a string, a list or a dict with string keys. A float is kept as its IEEE 754
  bit pattern. A dict is an association list in insertion order; a lookup takes the first
  binding of a key.
\<close>

datatype pyval =
    PNone
  | PBool bool
  | PInt int
  | PFloat "64 word"
  | PStr string
  | PList "pyval list"
  | PDict "(string \<times> pyval) list"

text \<open>
  The exceptions the modelled operations raise. Each of them is a subclass of Python's
  \<^verbatim>\<open>Exception\<close>. \<open>LibraryError\<close> stands for what the storage client libraries raise
  (network, authentication, quota).
\<close>

datatype pyexn =
    KeyError
  | AttributeError
  | TypeError
  | IndexError
  | ZlibError
  | UnicodeDecodeError
  | JSONDecodeError
  | UnicodeEncodeError
  | LibraryError string

definition bind_exn :: "pyexn + 'a \<Rightarrow> ('a \<Rightarrow> pyexn + 'b) \<Rightarrow> pyexn + 'b" where
  "bind_exn m f = (case m of Inl e \<Rightarrow> Inl e | Inr x \<Rightarrow> f x)"

text \<open>Truth value testing, as \<^verbatim>\<open>not x\<close> applies it: \<^verbatim>\<open>None\<close>, \<^verbatim>\<open>False\<close>, zero of a
  numeric type and the empty string, list and dict are false; a float is zero when all
  bits but the sign are.\<close>

fun py_truthy :: "pyval \<Rightarrow> bool" where
  "py_truthy PNone = False"
| "py_truthy (PBool b) = b"
| "py_truthy (PInt i) = (i \<noteq> 0)"
| "py_truthy (PFloat w) = (w \<noteq> 0 \<and> w \<noteq> 0x8000000000000000)"
| "py_truthy (PStr s) = (s \<noteq> [])"
| "py_truthy (PList xs) = (xs \<noteq> [])"
| "py_truthy (PDict d) = (d \<noteq> [])"

text \<open>\<^verbatim>\<open>x.get(key, default)\<close>: only a dict has the method.\<close>

definition field_or :: "(string \<times> pyval) list \<Rightarrow> string \<Rightarrow> pyval \<Rightarrow> pyval" where
  "field_or d key dflt = (case map_of d key of Some v \<Rightarrow> v | None \<Rightarrow> dflt)"

fun py_get :: "pyval \<Rightarrow> string \<Rightarrow> pyval \<Rightarrow> pyexn + pyval" where
  "py_get (PDict d) key dflt = Inr (field_or d key dflt)"
| "py_get _ key dflt = Inl AttributeError"

text \<open>\<^verbatim>\<open>x[key]\<close> with a string key: a dict raises KeyError on a missing key; a list or a
  string takes integer indices only and the other values are not subscriptable.\<close>

fun py_getitem :: "pyval \<Rightarrow> string \<Rightarrow> pyexn + pyval" where
  "py_getitem (PDict d) key = (case map_of d key of Some v \<Rightarrow> Inr v | None \<Rightarrow> Inl KeyError)"
| "py_getitem _ key = Inl TypeError"

text \<open>\<^verbatim>\<open>for addon in x\<close>: a list yields its elements, a dict its keys, a string its
  characters; the other values are not iterable.\<close>

fun py_iter :: "pyval \<Rightarrow> pyexn + pyval list" where
  "py_iter (PList xs) = Inr xs"
| "py_iter (PDict d) = Inr (map (\<lambda>kv. PStr (fst kv)) d)"
| "py_iter (PStr s) = Inr (map (\<lambda>c. PStr [c]) s)"
| "py_iter _ = Inl TypeError"

section \<open>Normalization (ProfileFetcher.get, lines 173 to 197)\<close>

text \<open>
  The list comprehension of lines 173 to 177. For each element the condition
  \<^verbatim>\<open>not addon.get("is_system", False)\<close> is evaluated first and \<^verbatim>\<open>addon["addon_id"]\<close>
  only when it holds; the first exception ends the comprehension.
\<close>

fun addon_ids_of :: "pyval list \<Rightarrow> pyexn + pyval list" where
  "addon_ids_of [] = Inr []"
| "addon_ids_of (addon # rest) =
     bind_exn (py_get addon ''is_system'' (PBool False)) (\<lambda>is_system.
       if \<not> py_truthy is_system then
         bind_exn (py_getitem addon ''addon_id'') (\<lambda>addon_id.
         bind_exn (addon_ids_of rest) (\<lambda>ids. Inr (addon_id # ids)))
       else addon_ids_of rest)"

text \<open>
  Lines 173 to 197: the add-on identifiers, then the output dict, whose lookups are
  evaluated in the order of the source. \<^verbatim>\<open>profile_data\<close> is what the backend returned
  and is not \<^verbatim>\<open>None\<close> here.
\<close>

definition normalize_profile :: "string \<Rightarrow> pyval \<Rightarrow> pyexn + pyval" where
  "normalize_profile client_id profile_data =
     bind_exn (py_get profile_data ''active_addons'' (PList [])) (\<lambda>active_addons.
     bind_exn (py_iter active_addons) (\<lambda>addons.
     bind_exn (addon_ids_of addons) (\<lambda>addon_ids.
     bind_exn (py_get profile_data ''city'' (PStr '''')) (\<lambda>city.
     bind_exn (py_get profile_data ''subsession_length'' (PInt 0)) (\<lambda>subsession_length.
     bind_exn (py_get profile_data ''locale'' (PStr '''')) (\<lambda>locale.
     bind_exn (py_get profile_data ''os'' (PStr '''')) (\<lambda>os.
     bind_exn (py_get profile_data ''disabled_addons_ids'' (PList [])) (\<lambda>disabled.
     bind_exn (py_get profile_data ''places_bookmarks_count'' (PInt 0)) (\<lambda>bookmarks.
     bind_exn (py_get profile_data
         ''scalar_parent_browser_engagement_tab_open_event_count'' (PInt 0)) (\<lambda>tabs.
     bind_exn (py_get profile_data
         ''scalar_parent_browser_engagement_total_uri_count'' (PInt 0)) (\<lambda>uris.
     bind_exn (py_get profile_data
         ''scalar_parent_browser_engagement_unique_domains_count'' (PInt 0)) (\<lambda>tlds.
     Inr (PDict
       [(''client_id'', PStr client_id),
        (''geo_city'', city),
        (''subsession_length'', subsession_length),
        (''locale'', locale),
        (''os'', os),
        (''installed_addons'', PList addon_ids),
        (''disabled_addons_ids'', disabled),
        (''bookmark_count'', bookmarks),
        (''tab_open_count'', tabs),
        (''total_uri'', uris),
        (''unique_tlds'', tlds)])))))))))))))"

section \<open>Library functions and storage services\<close>

text \<open>
  A \<^verbatim>\<open>bytes\<close> object is a list of 8-bit characters. The functions of \<^verbatim>\<open>zlib\<close> and
  \<^verbatim>\<open>json\<close> and the UTF-8 codec of \<^verbatim>\<open>str\<close> and \<^verbatim>\<open>bytes\<close> are not code of the
  repository: they are parameters of the model, each with the failures it can raise.
\<close>

type_synonym bytes = "char list"

record codec =
  str_encode :: "string \<Rightarrow> pyexn + bytes"
  bytes_decode :: "bytes \<Rightarrow> pyexn + string"
  zlib_compress :: "bytes \<Rightarrow> bytes"
  zlib_decompress :: "bytes \<Rightarrow> pyexn + bytes"
  json_dumps :: "pyval \<Rightarrow> pyexn + string"
  json_loads :: "string \<Rightarrow> pyexn + pyval"

text \<open>\<^verbatim>\<open>d[key]\<close> on a dict of the storage client and \<^verbatim>\<open>xs[0]\<close> on a list.\<close>

definition dict_getitem :: "('k \<times> 'v) list \<Rightarrow> 'k \<Rightarrow> pyexn + 'v" where
  "dict_getitem d key = (case map_of d key of Some v \<Rightarrow> Inr v | None \<Rightarrow> Inl KeyError)"

definition list_first :: "'a list \<Rightarrow> pyexn + 'a" where
  "list_first xs = (case xs of [] \<Rightarrow> Inl IndexError | x # _ \<Rightarrow> Inr x)"

text \<open>
  What \<^verbatim>\<open>table.read_row\<close> of the wide-column client returns: \<^verbatim>\<open>None\<close> when no row has
  the key, else a row whose \<^verbatim>\<open>cells\<close> attribute maps a column family to a map from column
  name to the column's cells, most recent first.
\<close>

record cell =
  cell_value :: bytes
  cell_timestamp :: nat

type_synonym row_cells = "(string \<times> (bytes \<times> cell list) list) list"

type_synonym read_row = "bytes \<Rightarrow> pyexn + row_cells option"

text \<open>
  What \<^verbatim>\<open>table.get_item\<close> of the key-value client returns: a response that has an
  \<^verbatim>\<open>"Item"\<close> entry only when an item has the key. An attribute stored as binary has a
  \<^verbatim>\<open>value\<close>; an attribute of another type has not.
\<close>

datatype ddb_attr = Binary bytes | NotBinary pyval

type_synonym ddb_item = "(string \<times> ddb_attr) list"

type_synonym get_item = "string \<Rightarrow> pyexn + ddb_item option"

section \<open>The record codec (lines 69 and 83)\<close>

definition encode_payload :: "codec \<Rightarrow> pyval \<Rightarrow> pyexn + bytes" where
  "encode_payload lib client_profile =
     bind_exn (json_dumps lib client_profile) (\<lambda>text.
     bind_exn (str_encode lib text) (\<lambda>raw.
     Inr (zlib_compress lib raw)))"

definition decode_payload :: "codec \<Rightarrow> bytes \<Rightarrow> pyexn + pyval" where
  "decode_payload lib payload =
     bind_exn (zlib_decompress lib payload) (\<lambda>raw.
     bind_exn (bytes_decode lib raw) (\<lambda>text.
     json_loads lib text))"

section \<open>BigTableProfileController\<close>

text \<open>The column family and the column name set by the constructor (lines 34 and 35).\<close>

definition column_family_id :: string where
  "column_family_id = ''profile''"

definition column_name :: "codec \<Rightarrow> pyexn + bytes" where
  "column_name lib = str_encode lib ''payload''"

text \<open>
  \<^verbatim>\<open>get_client_profile\<close>, lines 74 to 84. \<^verbatim>\<open>row.cells\<close> on the \<^verbatim>\<open>None\<close> that
  \<^verbatim>\<open>read_row\<close> returns for a missing row raises AttributeError; the two dict lookups
  raise KeyError and \<^verbatim>\<open>[0]\<close> raises IndexError. Nothing is caught.
\<close>

definition BigTableProfileController_get_client_profile ::
  "codec \<Rightarrow> read_row \<Rightarrow> string \<Rightarrow> pyexn + pyval" where
  "BigTableProfileController_get_client_profile lib table_read_row client_id =
     bind_exn (column_name lib) (\<lambda>col.
     bind_exn (str_encode lib client_id) (\<lambda>row_key.
     bind_exn (table_read_row row_key) (\<lambda>row.
     bind_exn (case row of None \<Rightarrow> Inl AttributeError | Some cells \<Rightarrow> Inr cells) (\<lambda>cells.
     bind_exn (dict_getitem cells column_family_id) (\<lambda>family.
     bind_exn (dict_getitem family col) (\<lambda>versions.
     bind_exn (list_first versions) (\<lambda>cell.
     decode_payload lib (cell_value cell))))))))"

text \<open>
  \<^verbatim>\<open>set_client_profile\<close>, lines 58 to 72, builds one row mutation and submits it with
  \<^verbatim>\<open>table.mutate_rows\<close>; the model returns the mutation it submits. \<open>utcnow\<close> is the
  clock's reading.
\<close>

record mutation =
  mut_row_key :: bytes
  mut_family :: string
  mut_column :: bytes
  mut_value :: bytes
  mut_timestamp :: nat

text \<open>\<^verbatim>\<open>x.encode("utf8")\<close>: only a string has the method here.\<close>

definition py_str_encode :: "codec \<Rightarrow> pyval \<Rightarrow> pyexn + bytes" where
  "py_str_encode lib v = (case v of PStr s \<Rightarrow> str_encode lib s | _ \<Rightarrow> Inl AttributeError)"

definition BigTableProfileController_set_client_profile ::
  "codec \<Rightarrow> nat \<Rightarrow> pyval \<Rightarrow> pyexn + mutation" where
  "BigTableProfileController_set_client_profile lib utcnow client_profile =
     bind_exn (column_name lib) (\<lambda>col.
     bind_exn (py_getitem client_profile ''client_id'') (\<lambda>cid.
     bind_exn (py_str_encode lib cid) (\<lambda>row_key.
     bind_exn (encode_payload lib client_profile) (\<lambda>payload.
     Inr \<lparr>mut_row_key = row_key, mut_family = column_family_id, mut_column = col,
          mut_value = payload, mut_timestamp = utcnow\<rparr>))))"

section \<open>ProfileController\<close>

datatype event =
    Construct
  | Invoked string
  | DebugErrorLoading string pyexn
  | DebugNotFound string

text \<open>
  \<^verbatim>\<open>get_client_profile\<close>, lines 104 to 121. First the body of the \<^verbatim>\<open>try\<close> block
  (lines 108 to 112): a response without \<^verbatim>\<open>"Item"\<close> and an item without
  \<^verbatim>\<open>"json_payload"\<close> raise KeyError, an attribute without \<^verbatim>\<open>value\<close> raises
  AttributeError.
\<close>

definition ProfileController_read :: "codec \<Rightarrow> get_item \<Rightarrow> string \<Rightarrow> pyexn + pyval" where
  "ProfileController_read lib table_get_item client_id =
     bind_exn (table_get_item client_id) (\<lambda>response.
     bind_exn (case response of None \<Rightarrow> Inl KeyError | Some item \<Rightarrow> Inr item) (\<lambda>item.
     bind_exn (dict_getitem item ''json_payload'') (\<lambda>attr.
     bind_exn (case attr of Binary b \<Rightarrow> Inr b | NotBinary _ \<Rightarrow> Inl AttributeError)
       (\<lambda>compressed_bytes.
     bind_exn (zlib_decompress lib compressed_bytes) (\<lambda>json_byte_data.
     bind_exn (bytes_decode lib json_byte_data) (\<lambda>json_str_data.
     json_loads lib json_str_data))))))"

text \<open>
  Then the handlers (lines 113 to 121): KeyError gives \<^verbatim>\<open>None\<close>; any other exception is
  logged at debug level and gives \<^verbatim>\<open>None\<close>. The method returns its result and the
  lines it logged.
\<close>

definition ProfileController_get_client_profile ::
  "codec \<Rightarrow> get_item \<Rightarrow> string \<Rightarrow> (pyexn + pyval) \<times> event list" where
  "ProfileController_get_client_profile lib table_get_item client_id =
     (case ProfileController_read lib table_get_item client_id of
        Inr v \<Rightarrow> (Inr v, [])
      | Inl KeyError \<Rightarrow> (Inr PNone, [])
      | Inl e \<Rightarrow> (Inr PNone, [DebugErrorLoading client_id e]))"

section \<open>ProfileFetcher\<close>

text \<open>
  A backend is its \<^verbatim>\<open>get_client_profile\<close>: the result and the lines it logs. The
  fetcher holds the cached backend (\<^verbatim>\<open>self.__client\<close>); \<open>events\<close> records, in order,
  each construction of the default backend, each call of a backend and each line logged.
  The two sets of reserved identifiers are imported from another module and the
  constructor of the default backend talks to the storage service: both are parameters.
\<close>

type_synonym backend = "string \<Rightarrow> (pyexn + pyval) \<times> event list"

record fetcher =
  client :: "backend option"
  events :: "event list"

record config =
  TEST_CLIENT_IDS :: "string list"
  EMPTY_TEST_CLIENT_IDS :: "string list"
  new_BigTableProfileController :: "pyexn + backend"

text \<open>The property \<^verbatim>\<open>_client\<close> (lines 134 to 143) and \<^verbatim>\<open>set_client\<close> (lines 145, 146).\<close>

definition ProfileFetcher_client :: "config \<Rightarrow> fetcher \<Rightarrow> (pyexn + backend) \<times> fetcher" where
  "ProfileFetcher_client cfg self =
     (case client self of
        Some c \<Rightarrow> (Inr c, self)
      | None \<Rightarrow>
          (case new_BigTableProfileController cfg of
             Inl e \<Rightarrow> (Inl e, self\<lparr>events := events self @ [Construct]\<rparr>)
           | Inr c \<Rightarrow> (Inr c, self\<lparr>client := Some c, events := events self @ [Construct]\<rparr>)))"

definition set_client :: "fetcher \<Rightarrow> backend \<Rightarrow> fetcher" where
  "set_client self c = self\<lparr>client := Some c\<rparr>"

text \<open>\<^verbatim>\<open>get\<close>, lines 148 to 197; the dict of lines 151 to 163 first.\<close>

definition synthetic_profile :: "string \<Rightarrow> pyval" where
  "synthetic_profile client_id =
     PDict
       [(''client_id'', PStr client_id),
        (''geo_city'', PStr ''Toronto''),
        (''subsession_length'', PInt 42),
        (''locale'', PStr ''en-CA''),
        (''os'', PStr ''Linux''),
        (''installed_addons'', PList []),
        (''disabled_addons_ids'', PList []),
        (''bookmark_count'', PInt 0),
        (''tab_open_count'', PInt 0),
        (''total_uri'', PInt 0),
        (''unique_tlds'', PInt 0)]"

definition ProfileFetcher_get :: "config \<Rightarrow> fetcher \<Rightarrow> string \<Rightarrow> (pyexn + pyval) \<times> fetcher" where
  "ProfileFetcher_get cfg self client_id =
     (if client_id \<in> set (TEST_CLIENT_IDS cfg) \<or> client_id \<in> set (EMPTY_TEST_CLIENT_IDS cfg)
      then (Inr (synthetic_profile client_id), self)
      else
        (case ProfileFetcher_client cfg self of
           (Inl e, self1) \<Rightarrow> (Inl e, self1)
         | (Inr c, self1) \<Rightarrow>
             (case c client_id of
                (result, logged) \<Rightarrow>
                  (let self2 = self1\<lparr>events := events self1 @ [Invoked client_id] @ logged\<rparr>
                   in case result of
                        Inl e \<Rightarrow> (Inl e, self2)
                      | Inr profile_data \<Rightarrow>
                          if profile_data = PNone
                          then (Inr PNone,
                                self2\<lparr>events := events self2 @ [DebugNotFound client_id]\<rparr>)
                          else (normalize_profile client_id profile_data, self2)))))"

section \<open>Vocabulary of the properties\<close>

text \<open>The value of a field of an add-on entry, \<open>dflt\<close> when the entry is not a mapping or
  has no such field.\<close>

definition entry_get :: "pyval \<Rightarrow> string \<Rightarrow> pyval \<Rightarrow> pyval" where
  "entry_get e key dflt = (case e of PDict d \<Rightarrow> field_or d key dflt | _ \<Rightarrow> dflt)"

text \<open>The value is a mapping that has the key.\<close>

definition has_key :: "pyval \<Rightarrow> string \<Rightarrow> bool" where
  "has_key e key =
     (case e of PDict d \<Rightarrow> (case map_of d key of Some _ \<Rightarrow> True | None \<Rightarrow> False)
      | _ \<Rightarrow> False)"

text \<open>The output record of normalization, given the list of add-on identifiers.\<close>

definition normalized :: "string \<Rightarrow> (string \<times> pyval) list \<Rightarrow> pyval list \<Rightarrow> pyval" where
  "normalized client_id d addon_ids =
     PDict
       [(''client_id'', PStr client_id),
        (''geo_city'', field_or d ''city'' (PStr '''')),
        (''subsession_length'', field_or d ''subsession_length'' (PInt 0)),
        (''locale'', field_or d ''locale'' (PStr '''')),
        (''os'', field_or d ''os'' (PStr '''')),
        (''installed_addons'', PList addon_ids),
        (''disabled_addons_ids'', field_or d ''disabled_addons_ids'' (PList [])),
        (''bookmark_count'', field_or d ''places_bookmarks_count'' (PInt 0)),
        (''tab_open_count'',
           field_or d ''scalar_parent_browser_engagement_tab_open_event_count'' (PInt 0)),
        (''total_uri'',
           field_or d ''scalar_parent_browser_engagement_total_uri_count'' (PInt 0)),
        (''unique_tlds'',
           field_or d ''scalar_parent_browser_engagement_unique_domains_count'' (PInt 0))]"

text \<open>An entry that the comprehension of lines 173 to 177 passes: a mapping whose
  \<^verbatim>\<open>is_system\<close> is true under truth value testing, or that has an \<^verbatim>\<open>addon_id\<close>.\<close>

definition entry_ok :: "pyval \<Rightarrow> bool" where
  "entry_ok e =
     (case e of
        PDict d \<Rightarrow> py_truthy (field_or d ''is_system'' (PBool False)) \<or> has_key e ''addon_id''
      | _ \<Rightarrow> False)"

text \<open>The shapes of \<^verbatim>\<open>active_addons\<close> that normalization accepts: absent, an empty
  mapping or string, or a list of entries that pass.\<close>

definition addons_shape_ok :: "(string \<times> pyval) list \<Rightarrow> bool" where
  "addons_shape_ok d =
     (case map_of d ''active_addons'' of
        None \<Rightarrow> True
      | Some (PList entries) \<Rightarrow> list_all entry_ok entries
      | Some (PDict keys) \<Rightarrow> keys = []
      | Some (PStr s) \<Rightarrow> s = []
      | Some _ \<Rightarrow> False)"

text \<open>\<^verbatim>\<open>active_addons\<close> is absent or a list of mappings that each have an
  \<^verbatim>\<open>addon_id\<close>.\<close>

definition addons_carry_ids :: "(string \<times> pyval) list \<Rightarrow> bool" where
  "addons_carry_ids d =
     (case map_of d ''active_addons'' of
        None \<Rightarrow> True
      | Some (PList entries) \<Rightarrow> list_all (\<lambda>e. has_key e ''addon_id'') entries
      | Some _ \<Rightarrow> False)"

text \<open>The identifiers of the entries whose \<^verbatim>\<open>is_system\<close> is absent or false under truth
  value testing, in source order.\<close>

definition kept_addon_ids :: "pyval list \<Rightarrow> pyval list" where
  "kept_addon_ids entries =
     map (\<lambda>e. entry_get e ''addon_id'' PNone)
       (filter (\<lambda>e. \<not> py_truthy (entry_get e ''is_system'' (PBool False))) entries)"

text \<open>The specification's words: the flag is absent or is the boolean false.\<close>

definition flag_absent_or_false :: "pyval \<Rightarrow> bool" where
  "flag_absent_or_false e =
     (case e of
        PDict d \<Rightarrow> (case map_of d ''is_system'' of None \<Rightarrow> True | Some v \<Rightarrow> v = PBool False)
      | _ \<Rightarrow> False)"

definition spec_installed_addons :: "pyval list \<Rightarrow> pyval list" where
  "spec_installed_addons entries =
     map (\<lambda>e. entry_get e ''addon_id'' PNone) (filter flag_absent_or_false entries)"

text \<open>The \<^verbatim>\<open>is_system\<close> of an entry is absent or a boolean.\<close>

definition flag_boolean :: "pyval \<Rightarrow> bool" where
  "flag_boolean e =
     (case e of
        PDict d \<Rightarrow>
          (case map_of d ''is_system'' of None \<Rightarrow> True | Some v \<Rightarrow> (case v of PBool _ \<Rightarrow> True | _ \<Rightarrow> False))
      | _ \<Rightarrow> False)"

text \<open>
  The libraries are lossless on a record: \<^verbatim>\<open>json.loads\<close> inverts \<^verbatim>\<open>json.dumps\<close> on it,
  decoding inverts encoding on its text and \<^verbatim>\<open>zlib.decompress\<close> inverts
  \<^verbatim>\<open>zlib.compress\<close> on the encoded text.
\<close>

definition lossless_on :: "codec \<Rightarrow> pyval \<Rightarrow> bool" where
  "lossless_on lib r =
     (case json_dumps lib r of
        Inl _ \<Rightarrow> False
      | Inr text \<Rightarrow>
          json_loads lib text = Inr r \<and>
          (case str_encode lib text of
             Inl _ \<Rightarrow> False
           | Inr raw \<Rightarrow>
               bytes_decode lib raw = Inr text \<and>
               zlib_decompress lib (zlib_compress lib raw) = Inr raw))"

text \<open>The table holds what a mutation wrote: reading the mutation's row gives a row
  whose most recent cell in the mutation's column has the mutation's value.\<close>

definition stored :: "read_row \<Rightarrow> mutation \<Rightarrow> bool" where
  "stored table_read_row m =
     (case table_read_row (mut_row_key m) of
        Inr (Some cells) \<Rightarrow>
          (case map_of cells (mut_family m) of
             Some family \<Rightarrow>
               (case map_of family (mut_column m) of
                  Some (c # _) \<Rightarrow> cell_value c = mut_value m
                | _ \<Rightarrow> False)
           | None \<Rightarrow> False)
      | _ \<Rightarrow> False)"

text \<open>
  A stand-in for the libraries, used in the examples: a string is its own encoding,
  compression puts a mark before the data, and JSON knows one document and its text.
\<close>

definition one_document_codec :: "pyval \<Rightarrow> string \<Rightarrow> codec" where
  "one_document_codec doc text =
     \<lparr>str_encode = Inr,
      bytes_decode = Inr,
      zlib_compress = (\<lambda>raw. CHR ''z'' # raw),
      zlib_decompress =
        (\<lambda>payload. case payload of
           [] \<Rightarrow> Inl ZlibError
         | c # raw \<Rightarrow> if c = CHR ''z'' then Inr raw else Inl ZlibError),
      json_dumps = (\<lambda>v. if v = doc then Inr text else Inl TypeError),
      json_loads = (\<lambda>s. if s = text then Inr doc else Inl JSONDecodeError)\<rparr>"

section \<open>Normalization: basic facts\<close>

lemma bind_exn_Inl [simp]: "bind_exn (Inl e) f = Inl e"
  by (simp add: bind_exn_def)

lemma bind_exn_Inr [simp]: "bind_exn (Inr x) f = f x"
  by (simp add: bind_exn_def)

lemma field_or_Some [simp]: "map_of d key = Some v \<Longrightarrow> field_or d key dflt = v"
  by (simp add: field_or_def)

lemma field_or_None [simp]: "map_of d key = None \<Longrightarrow> field_or d key dflt = dflt"
  by (simp add: field_or_def)

lemma entry_get_dict [simp]: "entry_get (PDict a) key dflt = field_or a key dflt"
  by (simp add: entry_get_def)

lemma kept_addon_ids_Nil [simp]: "kept_addon_ids [] = []"
  by (simp add: kept_addon_ids_def)

lemma kept_addon_ids_Cons [simp]:
  "kept_addon_ids (e # es) =
     (if py_truthy (entry_get e ''is_system'' (PBool False)) then kept_addon_ids es
      else entry_get e ''addon_id'' PNone # kept_addon_ids es)"
  by (simp add: kept_addon_ids_def)

lemma normalize_profile_dict:
  "normalize_profile client_id (PDict d) =
     bind_exn (py_iter (field_or d ''active_addons'' (PList []))) (\<lambda>addons.
     bind_exn (addon_ids_of addons) (\<lambda>addon_ids. Inr (normalized client_id d addon_ids)))"
  by (simp add: normalize_profile_def normalized_def)

text \<open>
  C8. For an empty raw record every output field of normalization has its default:
  \<^verbatim>\<open>geo_city\<close>, \<^verbatim>\<open>locale\<close> and \<^verbatim>\<open>os\<close> are the empty string, the five counters are 0 and
  both add-on lists are empty; \<^verbatim>\<open>client_id\<close> is the requested identifier.
\<close>

theorem normalize_profile_empty_record:
  "normalize_profile client_id (PDict []) =
     Inr (PDict
       [(''client_id'', PStr client_id),
        (''geo_city'', PStr ''''),
        (''subsession_length'', PInt 0),
        (''locale'', PStr ''''),
        (''os'', PStr ''''),
        (''installed_addons'', PList []),
        (''disabled_addons_ids'', PList []),
        (''bookmark_count'', PInt 0),
        (''tab_open_count'', PInt 0),
        (''total_uri'', PInt 0),
        (''unique_tlds'', PInt 0)])"
  by (simp add: normalize_profile_def field_or_def)

text \<open>
  The scenario of the specification: the record stored for \<^verbatim>\<open>abc123\<close> normalizes to the
  profile it lists.
\<close>

lemma normalize_profile_scenario:
  "normalize_profile ''abc123''
     (PDict [(''city'', PStr ''Paris''), (''locale'', PStr ''fr''), (''os'', PStr ''Darwin''),
             (''places_bookmarks_count'', PInt 5),
             (''active_addons'', PList [PDict [(''addon_id'', PStr ''ublock'')]])]) =
     Inr (PDict
       [(''client_id'', PStr ''abc123''),
        (''geo_city'', PStr ''Paris''),
        (''subsession_length'', PInt 0),
        (''locale'', PStr ''fr''),
        (''os'', PStr ''Darwin''),
        (''installed_addons'', PList [PStr ''ublock'']),
        (''disabled_addons_ids'', PList []),
        (''bookmark_count'', PInt 5),
        (''tab_open_count'', PInt 0),
        (''total_uri'', PInt 0),
        (''unique_tlds'', PInt 0)])"
  by (simp add: normalize_profile_def field_or_def)


section \<open>Normalization: shapes, defaults and add-on identifiers\<close>

lemma addon_ids_of_ok_iff: "(\<exists>ids. addon_ids_of entries = Inr ids) = list_all entry_ok entries"
proof (induction entries)
  case Nil
  show ?case by simp
next
  case (Cons e es)
  show ?case
  proof (cases e)
    case (PDict a)
    show ?thesis
    proof (cases "py_truthy (field_or a ''is_system'' (PBool False))")
      case True
      with PDict Cons show ?thesis
        by (simp add: entry_ok_def)
    next
      case False
      show ?thesis
      proof (cases "map_of a ''addon_id''")
        case None
        with False PDict show ?thesis
          by (simp add: entry_ok_def has_key_def)
      next
        case (Some v)
        have "(\<exists>ids. bind_exn (addon_ids_of es) (\<lambda>ids. Inr (v # ids)) = Inr ids)
              = (\<exists>ids. addon_ids_of es = Inr ids)"
          by (cases "addon_ids_of es") simp_all
        with Some False PDict Cons show ?thesis
          by (simp add: entry_ok_def has_key_def)
      qed
    qed
  qed (simp_all add: entry_ok_def)
qed

lemma addon_ids_of_carry:
  "list_all (\<lambda>e. has_key e ''addon_id'') entries \<Longrightarrow> addon_ids_of entries = Inr (kept_addon_ids entries)"
proof (induction entries)
  case Nil
  show ?case by simp
next
  case (Cons e es)
  from Cons.prems obtain a v where e: "e = PDict a" and v: "map_of a ''addon_id'' = Some v"
    by (auto simp: has_key_def split: pyval.splits option.splits)
  from Cons have IH: "addon_ids_of es = Inr (kept_addon_ids es)" by simp
  show ?case
    using e v IH by simp
qed

lemma normalize_profile_shape_iff:
  "(\<exists>out. normalize_profile client_id (PDict d) = Inr out) = addons_shape_ok d"
proof (cases "map_of d ''active_addons''")
  case None
  then show ?thesis by (simp add: normalize_profile_dict addons_shape_ok_def)
next
  case (Some v)
  have *: "(\<exists>out. bind_exn (addon_ids_of es) (\<lambda>ids. Inr (normalized client_id d ids)) = Inr out)
             = list_all entry_ok es" for es
    using addon_ids_of_ok_iff [of es] by (cases "addon_ids_of es") simp_all
  show ?thesis
  proof (cases v)
    case (PList es)
    with Some * show ?thesis
      by (simp add: normalize_profile_dict addons_shape_ok_def)
  next
    case (PDict a)
    with Some * show ?thesis
      by (cases a) (simp_all add: normalize_profile_dict addons_shape_ok_def entry_ok_def)
  next
    case (PStr s)
    with Some * show ?thesis
      by (cases s) (simp_all add: normalize_profile_dict addons_shape_ok_def entry_ok_def)
  qed (use Some in \<open>simp_all add: normalize_profile_dict addons_shape_ok_def\<close>)
qed

lemma normalize_profile_Inr_normalized:
  assumes "normalize_profile client_id (PDict d) = Inr out"
  shows "\<exists>ids. out = normalized client_id d ids
           \<and> (map_of d ''active_addons'' = None \<longrightarrow> ids = [])"
proof (cases "py_iter (field_or d ''active_addons'' (PList []))")
  case (Inl e)
  with assms show ?thesis by (simp add: normalize_profile_dict)
next
  case (Inr addons)
  show ?thesis
  proof (cases "addon_ids_of addons")
    case (Inl e)
    with Inr assms show ?thesis by (simp add: normalize_profile_dict)
  next
    case ids: (Inr ids)
    from Inr ids assms have out: "out = normalized client_id d ids"
      by (simp add: normalize_profile_dict)
    have "ids = []" if "map_of d ''active_addons'' = None"
      using that Inr ids by auto
    with out show ?thesis by (intro exI [of _ ids]) simp
  qed
qed

lemma normalized_fields:
  "py_getitem (normalized c d ids) ''client_id'' = Inr (PStr c)"
  "py_getitem (normalized c d ids) ''geo_city'' = Inr (field_or d ''city'' (PStr ''''))"
  "py_getitem (normalized c d ids) ''subsession_length'' = Inr (field_or d ''subsession_length'' (PInt 0))"
  "py_getitem (normalized c d ids) ''locale'' = Inr (field_or d ''locale'' (PStr ''''))"
  "py_getitem (normalized c d ids) ''os'' = Inr (field_or d ''os'' (PStr ''''))"
  "py_getitem (normalized c d ids) ''installed_addons'' = Inr (PList ids)"
  "py_getitem (normalized c d ids) ''disabled_addons_ids'' = Inr (field_or d ''disabled_addons_ids'' (PList []))"
  "py_getitem (normalized c d ids) ''bookmark_count'' = Inr (field_or d ''places_bookmarks_count'' (PInt 0))"
  "py_getitem (normalized c d ids) ''tab_open_count'' =
     Inr (field_or d ''scalar_parent_browser_engagement_tab_open_event_count'' (PInt 0))"
  "py_getitem (normalized c d ids) ''total_uri'' =
     Inr (field_or d ''scalar_parent_browser_engagement_total_uri_count'' (PInt 0))"
  "py_getitem (normalized c d ids) ''unique_tlds'' =
     Inr (field_or d ''scalar_parent_browser_engagement_unique_domains_count'' (PInt 0))"
  by (simp_all add: normalized_def)

text \<open>
  C3 (amended). Normalization of a raw record that is a mapping succeeds exactly when
  \<^verbatim>\<open>active_addons\<close> is absent, an empty mapping or string, or a list whose entries are
  mappings that each have a true \<^verbatim>\<open>is_system\<close> or an \<^verbatim>\<open>addon_id\<close>; and whenever it
  succeeds, every absent source field yields its default in the output.
\<close>
theorem normalize_profile_total_on_accepted_shapes:
  "((\<exists>out. normalize_profile client_id (PDict d) = Inr out) = addons_shape_ok d) \<and>
   (\<forall>out. normalize_profile client_id (PDict d) = Inr out \<longrightarrow>
      (map_of d ''city'' = None \<longrightarrow> py_getitem out ''geo_city'' = Inr (PStr '''')) \<and>
      (map_of d ''subsession_length'' = None \<longrightarrow>
         py_getitem out ''subsession_length'' = Inr (PInt 0)) \<and>
      (map_of d ''locale'' = None \<longrightarrow> py_getitem out ''locale'' = Inr (PStr '''')) \<and>
      (map_of d ''os'' = None \<longrightarrow> py_getitem out ''os'' = Inr (PStr '''')) \<and>
      (map_of d ''active_addons'' = None \<longrightarrow>
         py_getitem out ''installed_addons'' = Inr (PList [])) \<and>
      (map_of d ''disabled_addons_ids'' = None \<longrightarrow>
         py_getitem out ''disabled_addons_ids'' = Inr (PList [])) \<and>
      (map_of d ''places_bookmarks_count'' = None \<longrightarrow>
         py_getitem out ''bookmark_count'' = Inr (PInt 0)) \<and>
      (map_of d ''scalar_parent_browser_engagement_tab_open_event_count'' = None \<longrightarrow>
         py_getitem out ''tab_open_count'' = Inr (PInt 0)) \<and>
      (map_of d ''scalar_parent_browser_engagement_total_uri_count'' = None \<longrightarrow>
         py_getitem out ''total_uri'' = Inr (PInt 0)) \<and>
      (map_of d ''scalar_parent_browser_engagement_unique_domains_count'' = None \<longrightarrow>
         py_getitem out ''unique_tlds'' = Inr (PInt 0)))"
proof (intro conjI allI impI)
  show "(\<exists>out. normalize_profile client_id (PDict d) = Inr out) = addons_shape_ok d"
    by (rule normalize_profile_shape_iff)
next
  fix out
  assume "normalize_profile client_id (PDict d) = Inr out"
  then obtain ids where out: "out = normalized client_id d ids"
    and ids: "map_of d ''active_addons'' = None \<longrightarrow> ids = []"
    using normalize_profile_Inr_normalized by blast
  {
    assume "map_of d ''city'' = None"
    then show "py_getitem out ''geo_city'' = Inr (PStr '''')"
      by (simp add: out normalized_fields)
  next
    assume "map_of d ''subsession_length'' = None"
    then show "py_getitem out ''subsession_length'' = Inr (PInt 0)"
      by (simp add: out normalized_fields)
  next
    assume "map_of d ''locale'' = None"
    then show "py_getitem out ''locale'' = Inr (PStr '''')"
      by (simp add: out normalized_fields)
  next
    assume "map_of d ''os'' = None"
    then show "py_getitem out ''os'' = Inr (PStr '''')"
      by (simp add: out normalized_fields)
  next
    assume "map_of d ''active_addons'' = None"
    with ids show "py_getitem out ''installed_addons'' = Inr (PList [])"
      by (simp add: out normalized_fields)
  next
    assume "map_of d ''disabled_addons_ids'' = None"
    then show "py_getitem out ''disabled_addons_ids'' = Inr (PList [])"
      by (simp add: out normalized_fields)
  next
    assume "map_of d ''places_bookmarks_count'' = None"
    then show "py_getitem out ''bookmark_count'' = Inr (PInt 0)"
      by (simp add: out normalized_fields)
  next
    assume "map_of d ''scalar_parent_browser_engagement_tab_open_event_count'' = None"
    then show "py_getitem out ''tab_open_count'' = Inr (PInt 0)"
      by (simp add: out normalized_fields)
  next
    assume "map_of d ''scalar_parent_browser_engagement_total_uri_count'' = None"
    then show "py_getitem out ''total_uri'' = Inr (PInt 0)"
      by (simp add: out normalized_fields)
  next
    assume "map_of d ''scalar_parent_browser_engagement_unique_domains_count'' = None"
    then show "py_getitem out ''unique_tlds'' = Inr (PInt 0)"
      by (simp add: out normalized_fields)
  }
qed


theorem normalize_profile_total_on_accepted_shapes_witness:
  "addons_shape_ok [(''locale'', PStr ''fr''), (''active_addons'', PList [PDict [(''is_system'', PBool True)]])] \<and>
   map_of [(''locale'', PStr ''fr''), (''active_addons'', PList [PDict [(''is_system'', PBool True)]])] ''city'' = None \<and>
   (\<exists>out. normalize_profile ''abc''
       (PDict [(''locale'', PStr ''fr''), (''active_addons'', PList [PDict [(''is_system'', PBool True)]])]) = Inr out \<and>
      py_getitem out ''geo_city'' = Inr (PStr ''''))"
proof -
  let ?d = "[(''locale'', PStr ''fr''), (''active_addons'', PList [PDict [(''is_system'', PBool True)]])]"
  have ok: "addons_shape_ok ?d"
    by (simp add: addons_shape_ok_def entry_ok_def field_or_def)
  have none: "map_of ?d ''city'' = None"
    by simp
  note T = normalize_profile_total_on_accepted_shapes [of "''abc''" ?d]
  from T ok obtain out where out: "normalize_profile ''abc'' (PDict ?d) = Inr out"
    by blast
  with T none have "py_getitem out ''geo_city'' = Inr (PStr '''')"
    by blast
  with ok none out show ?thesis by blast
qed

text \<open>
  Normalization is not total on mappings: an add-on entry that has no \<^verbatim>\<open>addon_id\<close> and
  is not a system add-on raises KeyError at \<^verbatim>\<open>addon["addon_id"]\<close>.
\<close>
theorem normalize_profile_fails_without_addon_id:
  "normalize_profile ''abc'' (PDict [(''active_addons'', PList [PDict []])]) = Inl KeyError"
  by (simp add: normalize_profile_dict field_or_def)

lemma normalize_profile_carry_ids:
  assumes "addons_carry_ids d"
  shows "\<exists>ids. normalize_profile client_id (PDict d) = Inr (normalized client_id d ids)"
proof (cases "map_of d ''active_addons''")
  case None
  then show ?thesis by (auto simp: normalize_profile_dict)
next
  case (Some v)
  with assms obtain entries where v: "v = PList entries"
    and ok: "list_all (\<lambda>e. has_key e ''addon_id'') entries"
    by (auto simp: addons_carry_ids_def split: pyval.splits)
  from Some v ok show ?thesis
    by (auto simp: normalize_profile_dict addon_ids_of_carry)
qed

lemma addons_shape_ok_cong:
  "map_of d' ''active_addons'' = map_of d ''active_addons'' \<Longrightarrow>
   addons_shape_ok d' = addons_shape_ok d"
  by (simp add: addons_shape_ok_def)

text \<open>
  C10 (amended). When \<^verbatim>\<open>active_addons\<close> is absent or a list of mappings that each contain
  the key \<^verbatim>\<open>addon_id\<close>, normalization completes without error and returns the output
  record. The shape requirement that normalization imposes on a raw record is weaker:
  it succeeds exactly when \<^verbatim>\<open>active_addons\<close> is absent, an empty mapping or string, or a
  list of mappings that each have a true \<^verbatim>\<open>is_system\<close> or an \<^verbatim>\<open>addon_id\<close>. It imposes
  no other: two raw records with the same \<^verbatim>\<open>active_addons\<close> both normalize or both fail.
\<close>

theorem normalize_profile_shape_requirement:
  "(addons_carry_ids d \<longrightarrow>
      (\<exists>ids. normalize_profile client_id (PDict d) = Inr (normalized client_id d ids))) \<and>
   ((\<exists>out. normalize_profile client_id (PDict d) = Inr out) = addons_shape_ok d) \<and>
   (\<forall>d'. map_of d' ''active_addons'' = map_of d ''active_addons'' \<longrightarrow>
      (\<exists>out. normalize_profile client_id (PDict d') = Inr out) =
      (\<exists>out. normalize_profile client_id (PDict d) = Inr out))"
proof (intro conjI allI impI)
  assume "addons_carry_ids d"
  then show "\<exists>ids. normalize_profile client_id (PDict d) = Inr (normalized client_id d ids)"
    by (rule normalize_profile_carry_ids)
next
  show "(\<exists>out. normalize_profile client_id (PDict d) = Inr out) = addons_shape_ok d"
    by (rule normalize_profile_shape_iff)
next
  fix d'
  assume "map_of d' ''active_addons'' = map_of d ''active_addons''"
  then have "addons_shape_ok d' = addons_shape_ok d"
    by (rule addons_shape_ok_cong)
  then show "(\<exists>out. normalize_profile client_id (PDict d') = Inr out) =
             (\<exists>out. normalize_profile client_id (PDict d) = Inr out)"
    by (simp only: normalize_profile_shape_iff)
qed

theorem normalize_profile_shape_requirement_witness:
  "addons_carry_ids
     [(''city'', PInt 7), (''active_addons'', PList [PDict [(''addon_id'', PStr ''ublock'')]])] \<and>
   addons_shape_ok
     [(''city'', PInt 7), (''active_addons'', PList [PDict [(''addon_id'', PStr ''ublock'')]])] \<and>
   (\<exists>ids. normalize_profile ''abc''
      (PDict [(''city'', PInt 7),
              (''active_addons'', PList [PDict [(''addon_id'', PStr ''ublock'')]])]) =
      Inr (normalized ''abc''
             [(''city'', PInt 7),
              (''active_addons'', PList [PDict [(''addon_id'', PStr ''ublock'')]])] ids)) \<and>
   (\<exists>out. normalize_profile ''abc''
      (PDict [(''active_addons'', PList [PDict [(''addon_id'', PStr ''ublock'')]])]) = Inr out)"
proof -
  let ?d = "[(''city'', PInt 7), (''active_addons'', PList [PDict [(''addon_id'', PStr ''ublock'')]])]"
  let ?d' = "[(''active_addons'', PList [PDict [(''addon_id'', PStr ''ublock'')]])]"
  note T = normalize_profile_shape_requirement [of ?d "''abc''"]
  have carry: "addons_carry_ids ?d"
    by (simp add: addons_carry_ids_def has_key_def)
  have same: "map_of ?d' ''active_addons'' = map_of ?d ''active_addons''"
    by simp
  from T carry
  have 1: "\<exists>ids. normalize_profile ''abc'' (PDict ?d) = Inr (normalized ''abc'' ?d ids)"
    by blast
  then have ok: "\<exists>out. normalize_profile ''abc'' (PDict ?d) = Inr out"
    by blast
  with T have 2: "addons_shape_ok ?d"
    by blast
  from T same ok have 3: "\<exists>out. normalize_profile ''abc'' (PDict ?d') = Inr out"
    by blast
  from carry 2 1 3 show ?thesis
    by blast
qed

text \<open>
  The precondition is not required: a list with a system add-on that has no
  \<^verbatim>\<open>addon_id\<close> is outside it and normalizes, since the filter of line 176 runs before
  the subscript of line 174.
\<close>

theorem normalize_profile_system_entry_without_id:
  "\<not> addons_carry_ids [(''active_addons'', PList [PDict [(''is_system'', PBool True)]])] \<and>
   normalize_profile ''abc''
     (PDict [(''active_addons'', PList [PDict [(''is_system'', PBool True)]])]) =
     Inr (PDict
       [(''client_id'', PStr ''abc''),
        (''geo_city'', PStr ''''),
        (''subsession_length'', PInt 0),
        (''locale'', PStr ''''),
        (''os'', PStr ''''),
        (''installed_addons'', PList []),
        (''disabled_addons_ids'', PList []),
        (''bookmark_count'', PInt 0),
        (''tab_open_count'', PInt 0),
        (''total_uri'', PInt 0),
        (''unique_tlds'', PInt 0)])"
  by (simp add: addons_carry_ids_def has_key_def normalize_profile_def field_or_def)

text \<open>
  C7 (amended). When \<^verbatim>\<open>active_addons\<close> is a list of mappings that each carry an
  \<^verbatim>\<open>addon_id\<close>, \<^verbatim>\<open>installed_addons\<close> is the sequence of the \<^verbatim>\<open>addon_id\<close> values of
  exactly the entries whose \<^verbatim>\<open>is_system\<close> is absent or false under Python's truth value
  testing, in source order. When every \<^verbatim>\<open>is_system\<close> present is a boolean, these are
  the entries whose flag is absent or false.
\<close>
theorem installed_addons_by_truth_value:
  assumes "map_of d ''active_addons'' = Some (PList entries)"
    and "list_all (\<lambda>e. has_key e ''addon_id'') entries"
  shows "normalize_profile client_id (PDict d) = Inr (normalized client_id d (kept_addon_ids entries)) \<and>
         py_getitem (normalized client_id d (kept_addon_ids entries)) ''installed_addons'' =
           Inr (PList (kept_addon_ids entries)) \<and>
         (list_all flag_boolean entries \<longrightarrow> kept_addon_ids entries = spec_installed_addons entries)"
proof (intro conjI impI)
  show "normalize_profile client_id (PDict d) = Inr (normalized client_id d (kept_addon_ids entries))"
    using assms by (simp add: normalize_profile_dict addon_ids_of_carry)
  show "py_getitem (normalized client_id d (kept_addon_ids entries)) ''installed_addons'' =
          Inr (PList (kept_addon_ids entries))"
    by (simp add: normalized_def)
  show "kept_addon_ids entries = spec_installed_addons entries" if "list_all flag_boolean entries"
    using that
  proof (induction entries)
    case Nil
    show ?case by (simp add: spec_installed_addons_def)
  next
    case (Cons e es)
    then have IH: "kept_addon_ids es = spec_installed_addons es" by simp
    from Cons.prems have "flag_boolean e" by simp
    then have "py_truthy (entry_get e ''is_system'' (PBool False)) = (\<not> flag_absent_or_false e)"
    proof (cases e)
      case (PDict a)
      show ?thesis
      proof (cases "map_of a ''is_system''")
        case None
        with PDict show ?thesis by (simp add: flag_absent_or_false_def)
      next
        case (Some v)
        with PDict \<open>flag_boolean e\<close> show ?thesis
          by (cases v) (simp_all add: flag_absent_or_false_def flag_boolean_def)
      qed
    qed (simp_all add: flag_boolean_def)
    with IH show ?case
      by (simp add: spec_installed_addons_def)
  qed
qed

theorem installed_addons_by_truth_value_witness:
  "normalize_profile ''abc''
     (PDict [(''active_addons'',
        PList [PDict [(''addon_id'', PStr ''a''), (''is_system'', PBool True)],
               PDict [(''addon_id'', PStr ''b'')]])]) =
     Inr (PDict
       [(''client_id'', PStr ''abc''),
        (''geo_city'', PStr ''''),
        (''subsession_length'', PInt 0),
        (''locale'', PStr ''''),
        (''os'', PStr ''''),
        (''installed_addons'', PList [PStr ''b'']),
        (''disabled_addons_ids'', PList []),
        (''bookmark_count'', PInt 0),
        (''tab_open_count'', PInt 0),
        (''total_uri'', PInt 0),
        (''unique_tlds'', PInt 0)])"
proof -
  let ?es = "[PDict [(''addon_id'', PStr ''a''), (''is_system'', PBool True)],
              PDict [(''addon_id'', PStr ''b'')]]"
  let ?d = "[(''active_addons'', PList ?es)]"
  have 1: "map_of ?d ''active_addons'' = Some (PList ?es)" by simp
  have 2: "list_all (\<lambda>e. has_key e ''addon_id'') ?es" by (simp add: has_key_def)
  from installed_addons_by_truth_value [OF 1 2, of "''abc''"]
  show ?thesis
    by (simp add: normalized_def field_or_def)
qed

text \<open>
  An entry whose \<^verbatim>\<open>is_system\<close> is \<^verbatim>\<open>null\<close> is kept, although its flag is neither absent
  nor false.
\<close>
theorem installed_addons_null_flag_kept:
  "normalize_profile ''abc''
     (PDict [(''active_addons'',
        PList [PDict [(''addon_id'', PStr ''a''), (''is_system'', PNone)]])]) =
     Inr (PDict
       [(''client_id'', PStr ''abc''),
        (''geo_city'', PStr ''''),
        (''subsession_length'', PInt 0),
        (''locale'', PStr ''''),
        (''os'', PStr ''''),
        (''installed_addons'', PList [PStr ''a'']),
        (''disabled_addons_ids'', PList []),
        (''bookmark_count'', PInt 0),
        (''tab_open_count'', PInt 0),
        (''total_uri'', PInt 0),
        (''unique_tlds'', PInt 0)]) \<and>
   spec_installed_addons [PDict [(''addon_id'', PStr ''a''), (''is_system'', PNone)]] = []"
  by (simp add: normalize_profile_def field_or_def spec_installed_addons_def flag_absent_or_false_def)

section \<open>The fetcher and the backends\<close>

lemma ProfileFetcher_get_test_id:
  assumes "client_id \<in> set (TEST_CLIENT_IDS cfg) \<or> client_id \<in> set (EMPTY_TEST_CLIENT_IDS cfg)"
  shows "ProfileFetcher_get cfg self client_id = (Inr (synthetic_profile client_id), self)"
  using assms by (simp add: ProfileFetcher_get_def)

lemma ProfileFetcher_get_backend:
  assumes "client_id \<notin> set (TEST_CLIENT_IDS cfg)"
    and "client_id \<notin> set (EMPTY_TEST_CLIENT_IDS cfg)"
    and "ProfileFetcher_client cfg self = (Inr c, self1)"
    and "c client_id = (result, logged)"
  shows "fst (ProfileFetcher_get cfg self client_id) =
           (case result of
              Inl e \<Rightarrow> Inl e
            | Inr profile_data \<Rightarrow>
                if profile_data = PNone then Inr PNone
                else normalize_profile client_id profile_data)"
  using assms by (simp add: ProfileFetcher_get_def Let_def split: sum.splits)

text \<open>
  C4. For a client identifier in either reserved set, \<^verbatim>\<open>get\<close> returns the fixed
  synthetic profile (city Toronto, locale en-CA, os Linux, subsession length 42, the
  counters 0, both add-on lists empty), the same whichever set matched, and leaves the
  fetcher as it was: no backend is constructed or called and nothing is logged, whatever
  the cached backend and the constructor would do.
\<close>
theorem ProfileFetcher_get_reserved_id:
  assumes "client_id \<in> set (TEST_CLIENT_IDS cfg) \<or> client_id \<in> set (EMPTY_TEST_CLIENT_IDS cfg)"
  shows "ProfileFetcher_get cfg self client_id =
     (Inr (PDict
       [(''client_id'', PStr client_id),
        (''geo_city'', PStr ''Toronto''),
        (''subsession_length'', PInt 42),
        (''locale'', PStr ''en-CA''),
        (''os'', PStr ''Linux''),
        (''installed_addons'', PList []),
        (''disabled_addons_ids'', PList []),
        (''bookmark_count'', PInt 0),
        (''tab_open_count'', PInt 0),
        (''total_uri'', PInt 0),
        (''unique_tlds'', PInt 0)]), self)"
  using ProfileFetcher_get_test_id [OF assms] by (simp add: synthetic_profile_def)

theorem ProfileFetcher_get_reserved_id_witness:
  "fst (ProfileFetcher_get
     \<lparr>TEST_CLIENT_IDS = [''t1''], EMPTY_TEST_CLIENT_IDS = [''e1''],
      new_BigTableProfileController = Inl (LibraryError ''no credentials'')\<rparr>
     \<lparr>client = Some (\<lambda>cid. (Inl (LibraryError ''stub invoked''), [])), events = []\<rparr> ''e1'') =
   Inr (PDict
       [(''client_id'', PStr ''e1''),
        (''geo_city'', PStr ''Toronto''),
        (''subsession_length'', PInt 42),
        (''locale'', PStr ''en-CA''),
        (''os'', PStr ''Linux''),
        (''installed_addons'', PList []),
        (''disabled_addons_ids'', PList []),
        (''bookmark_count'', PInt 0),
        (''tab_open_count'', PInt 0),
        (''total_uri'', PInt 0),
        (''unique_tlds'', PInt 0)]) \<and>
   events (snd (ProfileFetcher_get
     \<lparr>TEST_CLIENT_IDS = [''t1''], EMPTY_TEST_CLIENT_IDS = [''e1''],
      new_BigTableProfileController = Inl (LibraryError ''no credentials'')\<rparr>
     \<lparr>client = None, events = []\<rparr> ''t1'')) = []"
proof -
  let ?cfg = "\<lparr>TEST_CLIENT_IDS = [''t1''], EMPTY_TEST_CLIENT_IDS = [''e1''],
      new_BigTableProfileController = Inl (LibraryError ''no credentials'')\<rparr>"
  have e: "''e1'' \<in> set (TEST_CLIENT_IDS ?cfg) \<or> ''e1'' \<in> set (EMPTY_TEST_CLIENT_IDS ?cfg)"
    by simp
  have t: "''t1'' \<in> set (TEST_CLIENT_IDS ?cfg) \<or> ''t1'' \<in> set (EMPTY_TEST_CLIENT_IDS ?cfg)"
    by simp
  show ?thesis
    by (simp add: ProfileFetcher_get_reserved_id [OF e] ProfileFetcher_get_reserved_id [OF t])
qed

text \<open>
  C9. For a client identifier outside the reserved sets for which the backend returns a
  raw record, \<^verbatim>\<open>get\<close> returns the normalization of that record under the requested
  identifier, and a profile it returns has \<^verbatim>\<open>client_id\<close> equal to the requested
  identifier, whatever \<^verbatim>\<open>client_id\<close> the raw record holds.
\<close>
theorem ProfileFetcher_get_client_id:
  assumes "client_id \<notin> set (TEST_CLIENT_IDS cfg)"
    and "client_id \<notin> set (EMPTY_TEST_CLIENT_IDS cfg)"
    and "ProfileFetcher_client cfg self = (Inr c, self1)"
    and "c client_id = (Inr (PDict d), logged)"
  shows "fst (ProfileFetcher_get cfg self client_id) = normalize_profile client_id (PDict d) \<and>
         (\<forall>out. fst (ProfileFetcher_get cfg self client_id) = Inr out \<longrightarrow>
            py_getitem out ''client_id'' = Inr (PStr client_id))"
proof -
  have eq: "fst (ProfileFetcher_get cfg self client_id) = normalize_profile client_id (PDict d)"
    using ProfileFetcher_get_backend [OF assms] by simp
  have "py_getitem out ''client_id'' = Inr (PStr client_id)"
    if "normalize_profile client_id (PDict d) = Inr out" for out
    using normalize_profile_Inr_normalized [OF that] by (auto simp: normalized_def)
  with eq show ?thesis by simp
qed

theorem ProfileFetcher_get_client_id_witness:
  "fst (ProfileFetcher_get
     \<lparr>TEST_CLIENT_IDS = [''t1''], EMPTY_TEST_CLIENT_IDS = [''e1''],
      new_BigTableProfileController = Inl (LibraryError ''no credentials'')\<rparr>
     \<lparr>client = Some (\<lambda>cid. (Inr (PDict [(''client_id'', PStr ''other''), (''city'', PStr ''Paris'')]), [])),
      events = []\<rparr> ''abc'') =
   Inr (PDict
       [(''client_id'', PStr ''abc''),
        (''geo_city'', PStr ''Paris''),
        (''subsession_length'', PInt 0),
        (''locale'', PStr ''''),
        (''os'', PStr ''''),
        (''installed_addons'', PList []),
        (''disabled_addons_ids'', PList []),
        (''bookmark_count'', PInt 0),
        (''tab_open_count'', PInt 0),
        (''total_uri'', PInt 0),
        (''unique_tlds'', PInt 0)])"
proof -
  let ?cfg = "\<lparr>TEST_CLIENT_IDS = [''t1''], EMPTY_TEST_CLIENT_IDS = [''e1''],
      new_BigTableProfileController = Inl (LibraryError ''no credentials'')\<rparr>"
  let ?c = "\<lambda>cid::string. (Inr (PDict [(''client_id'', PStr ''other''), (''city'', PStr ''Paris'')]) :: pyexn + pyval, [] :: event list)"
  let ?self = "\<lparr>client = Some ?c, events = []\<rparr>"
  have 1: "''abc'' \<notin> set (TEST_CLIENT_IDS ?cfg)" by simp
  have 2: "''abc'' \<notin> set (EMPTY_TEST_CLIENT_IDS ?cfg)" by simp
  have 3: "ProfileFetcher_client ?cfg ?self = (Inr ?c, ?self)"
    by (simp add: ProfileFetcher_client_def)
  have 4: "?c ''abc'' = (Inr (PDict [(''client_id'', PStr ''other''), (''city'', PStr ''Paris'')]), [])"
    by simp
  from ProfileFetcher_get_client_id [OF 1 2 3 4] show ?thesis
    by (simp add: normalize_profile_def field_or_def)
qed

text \<open>
  C1 (the code at a failing input). With the default backend and a client identifier
  whose row does not exist, \<^verbatim>\<open>get\<close> raises AttributeError: the failure inside the
  backend propagates past the fetcher.
\<close>
theorem ProfileFetcher_get_raises_on_missing_row:
  "fst (ProfileFetcher_get
     \<lparr>TEST_CLIENT_IDS = [], EMPTY_TEST_CLIENT_IDS = [],
      new_BigTableProfileController =
        Inr (\<lambda>cid. (BigTableProfileController_get_client_profile
                      (one_document_codec (PDict []) ''{}'') (\<lambda>key. Inr None) cid, []))\<rparr>
     \<lparr>client = None, events = []\<rparr> ''abc'') = Inl AttributeError"
  by (simp add: ProfileFetcher_get_def ProfileFetcher_client_def
      BigTableProfileController_get_client_profile_def column_name_def one_document_codec_def)

text \<open>
  C2 (the code at a failing input). When no row has the key, \<^verbatim>\<open>read_row\<close> returns
  \<^verbatim>\<open>None\<close> and \<^verbatim>\<open>BigTableProfileController.get_client_profile\<close> raises, for every
  client identifier: it does not return absence.
\<close>
theorem BigTable_get_client_profile_missing_row_raises:
  "(\<exists>e. BigTableProfileController_get_client_profile lib (\<lambda>key. Inr None) client_id = Inl e) \<and>
   BigTableProfileController_get_client_profile
     (one_document_codec (PDict []) ''{}'') (\<lambda>key. Inr None) ''abc'' = Inl AttributeError"
proof
  show "\<exists>e. BigTableProfileController_get_client_profile lib (\<lambda>key. Inr None) client_id = Inl e"
    by (cases "column_name lib"; cases "str_encode lib client_id")
      (simp_all add: BigTableProfileController_get_client_profile_def)
  show "BigTableProfileController_get_client_profile
     (one_document_codec (PDict []) ''{}'') (\<lambda>key. Inr None) ''abc'' = Inl AttributeError"
    by (simp add: BigTableProfileController_get_client_profile_def column_name_def one_document_codec_def)
qed

lemma ProfileController_read_decode:
  "ProfileController_read lib table_get_item client_id =
     bind_exn (table_get_item client_id) (\<lambda>response.
     bind_exn (case response of None \<Rightarrow> Inl KeyError | Some item \<Rightarrow> Inr item) (\<lambda>item.
     bind_exn (dict_getitem item ''json_payload'') (\<lambda>attr.
     bind_exn (case attr of Binary b \<Rightarrow> Inr b | NotBinary _ \<Rightarrow> Inl AttributeError)
       (decode_payload lib))))"
proof -
  have "decode_payload lib =
          (\<lambda>compressed_bytes.
             bind_exn (zlib_decompress lib compressed_bytes) (\<lambda>json_byte_data.
             bind_exn (bytes_decode lib json_byte_data) (\<lambda>json_str_data.
             json_loads lib json_str_data)))"
    by (rule ext) (simp add: decode_payload_def)
  then show ?thesis
    by (simp add: ProfileController_read_def)
qed

lemma ProfileController_get_client_profile_Inl:
  "ProfileController_read lib table_get_item client_id = Inl e \<Longrightarrow>
   fst (ProfileController_get_client_profile lib table_get_item client_id) = Inr PNone"
  by (cases e) (simp_all add: ProfileController_get_client_profile_def)

lemma ProfileController_get_client_profile_Inr:
  "ProfileController_read lib table_get_item client_id = Inr v \<Longrightarrow>
   fst (ProfileController_get_client_profile lib table_get_item client_id) = Inr v"
  by (simp add: ProfileController_get_client_profile_def)

text \<open>
  C6. \<^verbatim>\<open>ProfileController.get_client_profile\<close> never raises. It returns absence when the
  key is missing, when the read fails, when the item has no binary \<^verbatim>\<open>json_payload\<close> and
  when the payload does not decode; so a corrupt payload and a missing key give the same
  result. A payload that decodes is returned.
\<close>
theorem ProfileController_get_client_profile_never_raises:
  "(\<exists>v. fst (ProfileController_get_client_profile lib table_get_item client_id) = Inr v) \<and>
   (table_get_item client_id = Inr None \<longrightarrow>
      fst (ProfileController_get_client_profile lib table_get_item client_id) = Inr PNone) \<and>
   (\<forall>e. table_get_item client_id = Inl e \<longrightarrow>
      fst (ProfileController_get_client_profile lib table_get_item client_id) = Inr PNone) \<and>
   (\<forall>item. table_get_item client_id = Inr (Some item) \<longrightarrow>
      map_of item ''json_payload'' = None \<longrightarrow>
      fst (ProfileController_get_client_profile lib table_get_item client_id) = Inr PNone) \<and>
   (\<forall>item x. table_get_item client_id = Inr (Some item) \<longrightarrow>
      map_of item ''json_payload'' = Some (NotBinary x) \<longrightarrow>
      fst (ProfileController_get_client_profile lib table_get_item client_id) = Inr PNone) \<and>
   (\<forall>item b e. table_get_item client_id = Inr (Some item) \<longrightarrow>
      map_of item ''json_payload'' = Some (Binary b) \<longrightarrow>
      decode_payload lib b = Inl e \<longrightarrow>
      fst (ProfileController_get_client_profile lib table_get_item client_id) = Inr PNone) \<and>
   (\<forall>item b v. table_get_item client_id = Inr (Some item) \<longrightarrow>
      map_of item ''json_payload'' = Some (Binary b) \<longrightarrow>
      decode_payload lib b = Inr v \<longrightarrow>
      fst (ProfileController_get_client_profile lib table_get_item client_id) = Inr v)"
proof (intro conjI allI impI)
  show "\<exists>v. fst (ProfileController_get_client_profile lib table_get_item client_id) = Inr v"
    by (cases "ProfileController_read lib table_get_item client_id")
      (simp_all add: ProfileController_get_client_profile_Inl
        ProfileController_get_client_profile_Inr)
next
  assume "table_get_item client_id = Inr None"
  then have "ProfileController_read lib table_get_item client_id = Inl KeyError"
    by (simp add: ProfileController_read_decode)
  then show "fst (ProfileController_get_client_profile lib table_get_item client_id) = Inr PNone"
    by (rule ProfileController_get_client_profile_Inl)
next
  fix e
  assume "table_get_item client_id = Inl e"
  then have "ProfileController_read lib table_get_item client_id = Inl e"
    by (simp add: ProfileController_read_decode)
  then show "fst (ProfileController_get_client_profile lib table_get_item client_id) = Inr PNone"
    by (rule ProfileController_get_client_profile_Inl)
next
  fix item
  assume "table_get_item client_id = Inr (Some item)" "map_of item ''json_payload'' = None"
  then have "ProfileController_read lib table_get_item client_id = Inl KeyError"
    by (simp add: ProfileController_read_decode dict_getitem_def)
  then show "fst (ProfileController_get_client_profile lib table_get_item client_id) = Inr PNone"
    by (rule ProfileController_get_client_profile_Inl)
next
  fix item x
  assume "table_get_item client_id = Inr (Some item)"
    "map_of item ''json_payload'' = Some (NotBinary x)"
  then have "ProfileController_read lib table_get_item client_id = Inl AttributeError"
    by (simp add: ProfileController_read_decode dict_getitem_def)
  then show "fst (ProfileController_get_client_profile lib table_get_item client_id) = Inr PNone"
    by (rule ProfileController_get_client_profile_Inl)
next
  fix item b e
  assume "table_get_item client_id = Inr (Some item)"
    "map_of item ''json_payload'' = Some (Binary b)" "decode_payload lib b = Inl e"
  then have "ProfileController_read lib table_get_item client_id = Inl e"
    by (simp add: ProfileController_read_decode dict_getitem_def)
  then show "fst (ProfileController_get_client_profile lib table_get_item client_id) = Inr PNone"
    by (rule ProfileController_get_client_profile_Inl)
next
  fix item b v
  assume "table_get_item client_id = Inr (Some item)"
    "map_of item ''json_payload'' = Some (Binary b)" "decode_payload lib b = Inr v"
  then have "ProfileController_read lib table_get_item client_id = Inr v"
    by (simp add: ProfileController_read_decode dict_getitem_def)
  then show "fst (ProfileController_get_client_profile lib table_get_item client_id) = Inr v"
    by (rule ProfileController_get_client_profile_Inr)
qed

theorem ProfileController_get_client_profile_never_raises_witness:
  "decode_payload (one_document_codec (PDict []) ''{}'') ''garbage'' = Inl ZlibError \<and>
   ProfileController_get_client_profile (one_document_codec (PDict []) ''{}'')
     (\<lambda>cid. Inr (Some [(''json_payload'', Binary ''garbage'')])) ''abc'' =
     (Inr PNone, [DebugErrorLoading ''abc'' ZlibError]) \<and>
   ProfileController_get_client_profile (one_document_codec (PDict []) ''{}'')
     (\<lambda>cid. Inr None) ''abc'' = (Inr PNone, []) \<and>
   fst (ProfileController_get_client_profile (one_document_codec (PDict []) ''{}'')
     (\<lambda>cid. Inr (Some [(''json_payload'', Binary ''z{}'')])) ''abc'') = Inr (PDict [])"
proof -
  let ?lib = "one_document_codec (PDict []) ''{}''"
  let ?good = "\<lambda>cid::string. Inr (Some [(''json_payload'', Binary ''z{}'')]) :: pyexn + ddb_item option"
  have dec: "decode_payload ?lib ''z{}'' = Inr (PDict [])"
    by (simp add: decode_payload_def one_document_codec_def)
  have "fst (ProfileController_get_client_profile ?lib ?good ''abc'') = Inr (PDict [])"
    using ProfileController_get_client_profile_never_raises [of ?lib ?good "''abc''"] dec by simp
  moreover have "decode_payload ?lib ''garbage'' = Inl ZlibError"
    by (simp add: decode_payload_def one_document_codec_def)
  moreover have "ProfileController_get_client_profile ?lib
     (\<lambda>cid. Inr (Some [(''json_payload'', Binary ''garbage'')])) ''abc'' =
     (Inr PNone, [DebugErrorLoading ''abc'' ZlibError])"
    by (simp add: ProfileController_get_client_profile_def ProfileController_read_def
        dict_getitem_def one_document_codec_def)
  moreover have "ProfileController_get_client_profile ?lib (\<lambda>cid. Inr None) ''abc'' = (Inr PNone, [])"
    by (simp add: ProfileController_get_client_profile_def ProfileController_read_def)
  ultimately show ?thesis by simp
qed

text \<open>
  C5. For a record on which the libraries are lossless, decoding the encoded payload
  returns the record, whatever fields it holds. The mutation that
  \<^verbatim>\<open>set_client_profile\<close> submits carries that payload under the row key of the record's
  \<^verbatim>\<open>client_id\<close>, and from a table that holds it \<^verbatim>\<open>get_client_profile\<close> returns the
  record unchanged.
\<close>
theorem codec_round_trip:
  assumes "lossless_on lib r"
  shows "(\<exists>payload. encode_payload lib r = Inr payload \<and> decode_payload lib payload = Inr r) \<and>
         (\<forall>cid col key. py_getitem r ''client_id'' = Inr (PStr cid) \<longrightarrow>
            column_name lib = Inr col \<longrightarrow> str_encode lib cid = Inr key \<longrightarrow>
            (\<exists>m. BigTableProfileController_set_client_profile lib utcnow r = Inr m \<and>
                 mut_row_key m = key \<and> mut_family m = ''profile'' \<and> mut_column m = col \<and>
                 decode_payload lib (mut_value m) = Inr r \<and>
                 (\<forall>table_read_row. stored table_read_row m \<longrightarrow>
                    BigTableProfileController_get_client_profile lib table_read_row cid = Inr r)))"
proof -
  from assms obtain jtext raw where
    dumps: "json_dumps lib r = Inr jtext" and loads: "json_loads lib jtext = Inr r" and
    enc: "str_encode lib jtext = Inr raw" and dec: "bytes_decode lib raw = Inr jtext" and
    zz: "zlib_decompress lib (zlib_compress lib raw) = Inr raw"
    by (auto simp: lossless_on_def split: sum.splits)
  have e: "encode_payload lib r = Inr (zlib_compress lib raw)"
    by (simp add: encode_payload_def dumps enc)
  have d: "decode_payload lib (zlib_compress lib raw) = Inr r"
    by (simp add: decode_payload_def zz dec loads)
  have store: "\<exists>m. BigTableProfileController_set_client_profile lib utcnow r = Inr m \<and>
                 mut_row_key m = key \<and> mut_family m = ''profile'' \<and> mut_column m = col \<and>
                 decode_payload lib (mut_value m) = Inr r \<and>
                 (\<forall>table_read_row. stored table_read_row m \<longrightarrow>
                    BigTableProfileController_get_client_profile lib table_read_row cid = Inr r)"
    if cid: "py_getitem r ''client_id'' = Inr (PStr cid)" and col: "column_name lib = Inr col"
      and key: "str_encode lib cid = Inr key" for cid col key
  proof -
    let ?m = "\<lparr>mut_row_key = key, mut_family = column_family_id, mut_column = col,
          mut_value = zlib_compress lib raw, mut_timestamp = utcnow\<rparr>"
    have set: "BigTableProfileController_set_client_profile lib utcnow r = Inr ?m"
      by (simp add: BigTableProfileController_set_client_profile_def cid col key e py_str_encode_def)
    have get: "BigTableProfileController_get_client_profile lib rr cid = Inr r"
      if "stored rr ?m" for rr
    proof -
      from that obtain cells family c cs where
        "rr key = Inr (Some cells)" "map_of cells column_family_id = Some family"
        "map_of family col = Some (c # cs)" "cell_value c = zlib_compress lib raw"
        by (auto simp: stored_def split: sum.splits option.splits list.splits)
      then show ?thesis
        by (simp add: BigTableProfileController_get_client_profile_def col key dict_getitem_def
            list_first_def d)
    qed
    from set get d show ?thesis
      by (simp add: column_family_id_def)
  qed
  from e d store show ?thesis by blast
qed

theorem codec_round_trip_witness:
  \<open>lossless_on
     (one_document_codec (PDict [(''client_id'', PStr ''abc''), (''extra'', PInt 1)])
        ''{"client_id": "abc", "extra": 1}'')
     (PDict [(''client_id'', PStr ''abc''), (''extra'', PInt 1)]) \<and>
   BigTableProfileController_set_client_profile
     (one_document_codec (PDict [(''client_id'', PStr ''abc''), (''extra'', PInt 1)])
        ''{"client_id": "abc", "extra": 1}'')
     7 (PDict [(''client_id'', PStr ''abc''), (''extra'', PInt 1)]) =
     Inr \<lparr>mut_row_key = ''abc'', mut_family = ''profile'', mut_column = ''payload'',
          mut_value = ''z{"client_id": "abc", "extra": 1}'', mut_timestamp = 7\<rparr> \<and>
   BigTableProfileController_get_client_profile
     (one_document_codec (PDict [(''client_id'', PStr ''abc''), (''extra'', PInt 1)])
        ''{"client_id": "abc", "extra": 1}'')
     (\<lambda>key. if key = ''abc''
        then Inr (Some [(''profile'', [(''payload'',
               [\<lparr>cell_value = ''z{"client_id": "abc", "extra": 1}'', cell_timestamp = 7\<rparr>])])])
        else Inr None)
     ''abc'' =
     Inr (PDict [(''client_id'', PStr ''abc''), (''extra'', PInt 1)])\<close>
proof -
  let ?r = "PDict [(''client_id'', PStr ''abc''), (''extra'', PInt 1)]"
  let ?lib = \<open>one_document_codec ?r ''{"client_id": "abc", "extra": 1}''\<close>
  let ?m = \<open>\<lparr>mut_row_key = ''abc'', mut_family = ''profile'', mut_column = ''payload'',
          mut_value = ''z{"client_id": "abc", "extra": 1}'', mut_timestamp = 7::nat\<rparr>\<close>
  let ?rr = \<open>\<lambda>key::bytes. if key = ''abc''
        then Inr (Some [(''profile'', [(''payload'',
               [\<lparr>cell_value = ''z{"client_id": "abc", "extra": 1}'', cell_timestamp = 7\<rparr>])])])
        else (Inr None :: pyexn + row_cells option)\<close>
  have l: "lossless_on ?lib ?r"
    by (simp add: lossless_on_def one_document_codec_def)
  have cid: "py_getitem ?r ''client_id'' = Inr (PStr ''abc'')" by simp
  have col: "column_name ?lib = Inr ''payload''"
    by (simp add: column_name_def one_document_codec_def)
  have key: "str_encode ?lib ''abc'' = Inr ''abc''"
    by (simp add: one_document_codec_def)
  have set: "BigTableProfileController_set_client_profile ?lib 7 ?r = Inr ?m"
    by (simp add: BigTableProfileController_set_client_profile_def column_name_def
        py_str_encode_def encode_payload_def column_family_id_def one_document_codec_def)
  have st: "stored ?rr ?m"
    by (simp add: stored_def)
  from codec_round_trip [OF l, of 7] cid col key set st
  have "BigTableProfileController_get_client_profile ?lib ?rr ''abc'' = Inr ?r"
    by fastforce
  with l set show ?thesis by simp
qed

end
